theory Spec2Isabelle
  imports Main
begin

section \<open>Smart Railway Track Inspection API: the section status engine\<close>

text \<open>
  A shallow embedding of the request handlers of \<^verbatim>\<open>main.py\<close> that read and write the
  collections \<^verbatim>\<open>tracksection\<close>, \<^verbatim>\<open>inspection\<close> and \<^verbatim>\<open>alert\<close>. A handler takes the
  database and returns the database it leaves behind together with its outcome: the
  response, or the exception it raised. What a handler reads from its environment (the
  clock, the identifier the driver gives an inserted document) is an argument.
\<close>

subsection \<open>Documents\<close>

type_synonym datetime = nat
  \<comment> \<open>an instant as \<^verbatim>\<open>datetime.now(timezone.utc)\<close> returns it\<close>

text \<open>
  The documents of \<^verbatim>\<open>tracksection\<close>: the fields \<^verbatim>\<open>create_section\<close> writes (those of
  \<^verbatim>\<open>schemas.TrackSection\<close> and the two timestamps). The \<^verbatim>\<open>_id\<close> is the key under which
  the collection holds the document. Every field is present in a stored section, so
  \<^verbatim>\<open>section.get("status")\<close> and \<^verbatim>\<open>section.get("persistent_faults", 0)\<close> read the
  stored values.
\<close>

record TrackSection =
  name :: string
  status :: string
  color_safe :: string
  color_faulty :: string
  last_check :: "string option"
  persistent_faults :: int
  created_at :: datetime
  updated_at :: datetime

record Inspection =
  insp_section_id :: string
  insp_status :: string
  detail :: "string option"
  inspected_at :: "string option"
  insp_created_at :: datetime

record Alert =
  alert_section_id :: string
  message :: string
  severity :: string
  acknowledged :: bool
  alert_created_at :: datetime

text \<open>A collection lists its documents in insertion order, each under its \<^verbatim>\<open>_id\<close>.\<close>

type_synonym ('oid, 'doc) collection = "('oid \<times> 'doc) list"

record 'oid database =
  tracksection :: "('oid, TrackSection) collection"
  inspection :: "('oid, Inspection) collection"
  alert :: "('oid, Alert) collection"

subsection \<open>Library functions the handlers call\<close>

text \<open>
  \<^verbatim>\<open>ObjectId.is_valid\<close>, the constructor \<^verbatim>\<open>ObjectId\<close> and \<^verbatim>\<open>str\<close> on an identifier
  (package \<^verbatim>\<open>bson\<close>) and \<^verbatim>\<open>datetime.isoformat\<close> are not code of the service: the
  handlers take them as a parameter.
\<close>

record 'oid externals =
  is_valid :: "string \<Rightarrow> bool"
  ObjectId :: "string \<Rightarrow> 'oid"
  str_oid :: "'oid \<Rightarrow> string"
  isoformat :: "datetime \<Rightarrow> string"

subsection \<open>Outcomes\<close>

datatype error =
    HTTPException nat string
  | TypeError
  \<comment> \<open>\<^verbatim>\<open>s.pop\<close> on the \<^verbatim>\<open>None\<close> that \<^verbatim>\<open>find_one\<close> returns for a missing document\<close>

datatype response =
    Updated bool
  | SectionDoc string TrackSection
  | Created bool
  | Acknowledged bool

text \<open>
  \<^verbatim>\<open>Updated b\<close> is \<^verbatim>\<open>{"updated": b}\<close>, \<^verbatim>\<open>Created b\<close> is \<^verbatim>\<open>{"created": b}\<close>,
  \<^verbatim>\<open>Acknowledged b\<close> is \<^verbatim>\<open>{"acknowledged": b}\<close>, and \<^verbatim>\<open>SectionDoc i s\<close> is the section
  document \<^verbatim>\<open>s\<close> with its \<^verbatim>\<open>_id\<close> replaced by \<^verbatim>\<open>"id": i\<close>.
\<close>

record summary_counts =
  total :: nat
  safe :: nat
  faulty :: nat
  critical :: nat

subsection \<open>Request models\<close>

record SectionUpdate =
  upd_name :: "string option"
  upd_status :: "string option"
  upd_color_safe :: "string option"
  upd_color_faulty :: "string option"

record MarkPayload =
  mark_status :: string

record InspectPayload =
  payload_section_id :: string
  payload_status :: string
  payload_detail :: "string option"

subsection \<open>The document store\<close>

text \<open>\<^verbatim>\<open>find_one({"_id": k})\<close>: the first document with that identifier, if any.\<close>

fun find_one :: "('oid, 'doc) collection \<Rightarrow> 'oid \<Rightarrow> 'doc option" where
  "find_one [] k = None"
| "find_one ((k', d) # rest) k = (if k' = k then Some d else find_one rest k)"

text \<open>
  \<^verbatim>\<open>update_one({"_id": k}, {"$set": ...})\<close>: the first document with that identifier is
  rewritten by \<open>f\<close>; the result carries \<^verbatim>\<open>matched_count\<close>.
\<close>

fun update_one ::
  "('oid, 'doc) collection \<Rightarrow> 'oid \<Rightarrow> ('doc \<Rightarrow> 'doc) \<Rightarrow> ('oid, 'doc) collection \<times> nat" where
  "update_one [] k f = ([], 0)"
| "update_one ((k', d) # rest) k f =
     (if k' = k then ((k', f d) # rest, 1)
      else (case update_one rest k f of (rest', n) \<Rightarrow> ((k', d) # rest', n)))"

text \<open>\<^verbatim>\<open>insert_one(doc)\<close>, the driver having given the document the identifier \<open>k\<close>.\<close>

definition insert_one :: "('oid, 'doc) collection \<Rightarrow> 'oid \<Rightarrow> 'doc \<Rightarrow> ('oid, 'doc) collection" where
  "insert_one coll k d = coll @ [(k, d)]"

text \<open>The filters \<^verbatim>\<open>summary\<close> passes to \<^verbatim>\<open>count_documents\<close>.\<close>

datatype query =
    All
  | StatusEq string
  | PersistentFaultsGte int

fun matches :: "query \<Rightarrow> TrackSection \<Rightarrow> bool" where
  "matches All s = True"
| "matches (StatusEq v) s = (status s = v)"
| "matches (PersistentFaultsGte n) s = (n \<le> persistent_faults s)"

fun count_documents :: "('oid, TrackSection) collection \<Rightarrow> query \<Rightarrow> nat" where
  "count_documents [] q = 0"
| "count_documents ((k, s) # rest) q =
     (if matches q s then Suc (count_documents rest q) else count_documents rest q)"

text \<open>The entries of a \<^verbatim>\<open>$set\<close> on a section, and their application to a document.\<close>

datatype field_set =
    SetName string
  | SetStatus string
  | SetColorSafe string
  | SetColorFaulty string
  | SetLastCheck string
  | SetPersistentFaults int
  | SetUpdatedAt datetime

fun set_field :: "field_set \<Rightarrow> TrackSection \<Rightarrow> TrackSection" where
  "set_field (SetName v) s = s\<lparr>name := v\<rparr>"
| "set_field (SetStatus v) s = s\<lparr>status := v\<rparr>"
| "set_field (SetColorSafe v) s = s\<lparr>color_safe := v\<rparr>"
| "set_field (SetColorFaulty v) s = s\<lparr>color_faulty := v\<rparr>"
| "set_field (SetLastCheck v) s = s\<lparr>last_check := Some v\<rparr>"
| "set_field (SetPersistentFaults n) s = s\<lparr>persistent_faults := n\<rparr>"
| "set_field (SetUpdatedAt t) s = s\<lparr>updated_at := t\<rparr>"

fun set_fields :: "field_set list \<Rightarrow> TrackSection \<Rightarrow> TrackSection" where
  "set_fields [] s = s"
| "set_fields (u # us) s = set_fields us (set_field u s)"

subsection \<open>Handlers\<close>

definition oid :: "'oid externals \<Rightarrow> string \<Rightarrow> error + 'oid" where
  "oid L id_str =
     (if \<not> is_valid L id_str then Inl (HTTPException 400 ''Invalid id'')
      else Inr (ObjectId L id_str))"

text \<open>\<^verbatim>\<open>payload.model_dump(exclude_none=True)\<close>: the fields of the payload that are set.\<close>

definition model_dump :: "SectionUpdate \<Rightarrow> field_set list" where
  "model_dump payload =
     (case upd_name payload of None \<Rightarrow> [] | Some v \<Rightarrow> [SetName v]) @
     (case upd_status payload of None \<Rightarrow> [] | Some v \<Rightarrow> [SetStatus v]) @
     (case upd_color_safe payload of None \<Rightarrow> [] | Some v \<Rightarrow> [SetColorSafe v]) @
     (case upd_color_faulty payload of None \<Rightarrow> [] | Some v \<Rightarrow> [SetColorFaulty v])"

definition update_section ::
  "'oid externals \<Rightarrow> 'oid database \<Rightarrow> string \<Rightarrow> SectionUpdate \<Rightarrow> datetime
   \<Rightarrow> 'oid database \<times> (error + response)" where
  "update_section L db section_id payload now =
     (let updates = model_dump payload in
      if updates = [] then (db, Inr (Updated False))
      else
        let updates = updates @ [SetUpdatedAt now] in
        case oid L section_id of
          Inl e \<Rightarrow> (db, Inl e)
        | Inr k \<Rightarrow>
            (case update_one (tracksection db) k (set_fields updates) of
               (secs, matched_count) \<Rightarrow>
                 let db1 = db\<lparr>tracksection := secs\<rparr> in
                 if matched_count = 0
                 then (db1, Inl (HTTPException 404 ''Section not found''))
                 else
                   (case find_one (tracksection db1) k of
                      None \<Rightarrow> (db1, Inl TypeError)
                    | Some s \<Rightarrow> (db1, Inr (SectionDoc (str_oid L k) s)))))"

text \<open>
  \<^verbatim>\<open>mark_section\<close> reads the clock three times (\<open>now\<close>, then for \<^verbatim>\<open>last_check\<close>, then
  for \<^verbatim>\<open>inspected_at\<close>) and inserts an inspection and, on a fault, an alert. A document
  that \<^verbatim>\<open>find_one\<close> returns holds its \<^verbatim>\<open>_id\<close>, so \<^verbatim>\<open>not section\<close> is true for \<^verbatim>\<open>None\<close>
  only.
\<close>

definition mark_section ::
  "'oid externals \<Rightarrow> 'oid database \<Rightarrow> string \<Rightarrow> MarkPayload
   \<Rightarrow> datetime \<Rightarrow> datetime \<Rightarrow> datetime \<Rightarrow> 'oid \<Rightarrow> 'oid
   \<Rightarrow> 'oid database \<times> (error + response)" where
  "mark_section L db section_id payload now now_check now_insp insp_id alert_id =
     (case oid L section_id of
        Inl e \<Rightarrow> (db, Inl e)
      | Inr k \<Rightarrow>
          (case find_one (tracksection db) k of
             None \<Rightarrow> (db, Inl (HTTPException 404 ''Section not found''))
           | Some section \<Rightarrow>
               let is_repeat_fault =
                     (status section = ''faulty'' \<and> mark_status payload = ''faulty'');
                   updates =
                     [SetStatus (mark_status payload),
                      SetLastCheck (isoformat L now_check),
                      SetUpdatedAt now] @
                     (if is_repeat_fault
                      then [SetPersistentFaults (persistent_faults section + 1)] else []);
                   db1 = db\<lparr>tracksection :=
                            fst (update_one (tracksection db) k (set_fields updates))\<rparr>;
                   insp = \<lparr>insp_section_id = section_id,
                           insp_status = mark_status payload,
                           detail = Some ''manual-mark'',
                           inspected_at = Some (isoformat L now_insp),
                           insp_created_at = now\<rparr>;
                   db2 = db1\<lparr>inspection := insert_one (inspection db1) insp_id insp\<rparr>;
                   db3 =
                     (if mark_status payload = ''faulty''
                      then db2\<lparr>alert := insert_one (alert db2) alert_id
                             \<lparr>alert_section_id = section_id,
                              message = ''Fault detected at section '' @ name section @ ''.'',
                              severity = ''high'',
                              acknowledged = False,
                              alert_created_at = now\<rparr>\<rparr>
                      else db2)
               in (case find_one (tracksection db3) k of
                     None \<Rightarrow> (db3, Inl TypeError)
                   | Some s \<Rightarrow> (db3, Inr (SectionDoc (str_oid L k) s)))))"

definition inspect ::
  "'oid externals \<Rightarrow> 'oid database \<Rightarrow> InspectPayload \<Rightarrow> datetime \<Rightarrow> 'oid \<Rightarrow> 'oid
   \<Rightarrow> 'oid database \<times> (error + response)" where
  "inspect L db payload now insp_id alert_id =
     (case oid L (payload_section_id payload) of
        Inl e \<Rightarrow> (db, Inl e)
      | Inr k \<Rightarrow>
          (case find_one (tracksection db) k of
             None \<Rightarrow> (db, Inl (HTTPException 404 ''Section not found''))
           | Some section \<Rightarrow>
               let insp = \<lparr>insp_section_id = payload_section_id payload,
                           insp_status = payload_status payload,
                           detail = payload_detail payload,
                           inspected_at = Some (isoformat L now),
                           insp_created_at = now\<rparr>;
                   db1 = db\<lparr>inspection := insert_one (inspection db) insp_id insp\<rparr>;
                   is_repeat_fault =
                     (status section = ''faulty'' \<and> payload_status payload = ''faulty'');
                   updates =
                     [SetStatus (payload_status payload),
                      SetLastCheck (isoformat L now),
                      SetUpdatedAt now] @
                     (if is_repeat_fault
                      then [SetPersistentFaults (persistent_faults section + 1)] else []);
                   db2 = db1\<lparr>tracksection :=
                            fst (update_one (tracksection db1) k (set_fields updates))\<rparr>;
                   db3 =
                     (if payload_status payload = ''faulty''
                      then db2\<lparr>alert := insert_one (alert db2) alert_id
                             \<lparr>alert_section_id = payload_section_id payload,
                              message = ''Fault detected at section '' @ name section @ '' (auto)'',
                              severity = ''high'',
                              acknowledged = False,
                              alert_created_at = now\<rparr>\<rparr>
                      else db2)
               in (db3, Inr (Created True))))"

definition ack_alert ::
  "'oid externals \<Rightarrow> 'oid database \<Rightarrow> string \<Rightarrow> 'oid database \<times> (error + response)" where
  "ack_alert L db alert_id =
     (case oid L alert_id of
        Inl e \<Rightarrow> (db, Inl e)
      | Inr k \<Rightarrow>
          (case update_one (alert db) k (\<lambda>a. a\<lparr>acknowledged := True\<rparr>) of
             (alerts, matched_count) \<Rightarrow>
               let db1 = db\<lparr>alert := alerts\<rparr> in
               if matched_count = 0
               then (db1, Inl (HTTPException 404 ''Alert not found''))
               else (db1, Inr (Acknowledged True))))"

definition summary :: "'oid database \<Rightarrow> 'oid database \<times> summary_counts" where
  "summary db =
     (let total = count_documents (tracksection db) All;
          safe = count_documents (tracksection db) (StatusEq ''safe'');
          faulty = count_documents (tracksection db) (StatusEq ''faulty'');
          critical = count_documents (tracksection db) (PersistentFaultsGte 3)
      in (db, \<lparr>total = total, safe = safe, faulty = faulty, critical = critical\<rparr>))"

subsection \<open>Sequences of requests\<close>

text \<open>
  A client sends requests one after another; each is handled on the database the
  previous one left, whatever its outcome.
\<close>

datatype 'oid call =
    Mark string MarkPayload datetime datetime datetime 'oid 'oid
  | Inspect InspectPayload datetime 'oid 'oid
  | Patch string SectionUpdate datetime
  | Ack string

fun exec :: "'oid externals \<Rightarrow> 'oid database \<Rightarrow> 'oid call \<Rightarrow> 'oid database \<times> (error + response)" where
  "exec L db (Mark section_id payload now now_check now_insp insp_id alert_id) =
     mark_section L db section_id payload now now_check now_insp insp_id alert_id"
| "exec L db (Inspect payload now insp_id alert_id) = inspect L db payload now insp_id alert_id"
| "exec L db (Patch section_id payload now) = update_section L db section_id payload now"
| "exec L db (Ack alert_id) = ack_alert L db alert_id"

fun run :: "'oid externals \<Rightarrow> 'oid database \<Rightarrow> 'oid call list \<Rightarrow> 'oid database" where
  "run L db [] = db"
| "run L db (c # cs) = run L (fst (exec L db c)) cs"

text \<open>The section identifier and the observed status a request reports, if it reports one.\<close>

fun observation :: "'oid call \<Rightarrow> (string \<times> string) option" where
  "observation (Mark section_id payload now now_check now_insp insp_id alert_id) =
     Some (section_id, mark_status payload)"
| "observation (Inspect payload now insp_id alert_id) =
     Some (payload_section_id payload, payload_status payload)"
| "observation (Patch section_id payload now) = None"
| "observation (Ack alert_id) = None"

text \<open>
  The request \<open>c\<close> observes a fault on the section stored under \<open>k\<close>, whose persisted
  document \<open>s\<close> is faulty already.
\<close>

definition repeat_fault :: "'oid externals \<Rightarrow> 'oid \<Rightarrow> TrackSection \<Rightarrow> 'oid call \<Rightarrow> bool" where
  "repeat_fault L k s c =
     (case observation c of
        None \<Rightarrow> False
      | Some (section_id, observed) \<Rightarrow>
          is_valid L section_id \<and> ObjectId L section_id = k \<and>
          status s = ''faulty'' \<and> observed = ''faulty'')"

subsection \<open>A sample store\<close>

text \<open>
  Concrete data for the examples: a stand-in for the library functions (an identifier is
  well-formed when it has 24 characters and is read as it is written; an instant is
  rendered as that many marks) and a store with three sections, two safe and one faulty
  with three persistent faults, and one open alert.
\<close>

definition sample_externals :: "string externals" where
  "sample_externals =
     \<lparr>is_valid = (\<lambda>s. length s = 24),
      ObjectId = (\<lambda>s. s),
      str_oid = (\<lambda>k. k),
      isoformat = (\<lambda>t. replicate t (CHR ''+''))\<rparr>"

definition sample_section :: "string \<Rightarrow> string \<Rightarrow> int \<Rightarrow> TrackSection" where
  "sample_section n st pf =
     \<lparr>name = n, status = st, color_safe = ''#16a34a'', color_faulty = ''#dc2626'',
      last_check = None, persistent_faults = pf, created_at = 1, updated_at = 1\<rparr>"

definition sample_db :: "string database" where
  "sample_db =
     \<lparr>tracksection =
        [(''000000000000000000000001'', sample_section ''S1'' ''safe'' 0),
         (''000000000000000000000002'', sample_section ''S2'' ''safe'' 0),
         (''000000000000000000000003'', sample_section ''S3'' ''faulty'' 3)],
      inspection = [],
      alert =
        [(''00000000000000000000000a'',
          \<lparr>alert_section_id = ''000000000000000000000003'',
           message = ''Fault detected at section S3.'',
           severity = ''high'', acknowledged = False, alert_created_at = 1\<rparr>)]\<rparr>"

text \<open>Four requests on the third section of the sample store and its alert.\<close>

definition sample_calls :: "string call list" where
  "sample_calls =
     [Mark ''000000000000000000000003'' \<lparr>mark_status = ''faulty''\<rparr> 2 3 4
        ''0000000000000000000000b1'' ''0000000000000000000000a1'',
      Inspect \<lparr>payload_section_id = ''000000000000000000000003'',
               payload_status = ''safe'', payload_detail = None\<rparr> 5
        ''0000000000000000000000b2'' ''0000000000000000000000a2'',
      Patch ''000000000000000000000003''
        \<lparr>upd_name = None, upd_status = Some ''faulty'', upd_color_safe = None,
         upd_color_faulty = None\<rparr> 6,
      Ack ''00000000000000000000000a'']"

text \<open>Single requests reporting a fault on the third and on the first sample section.\<close>

definition mark_faulty_s3 :: "string call" where
  "mark_faulty_s3 = Mark ''000000000000000000000003'' \<lparr>mark_status = ''faulty''\<rparr> 2 3 4
        ''0000000000000000000000b1'' ''0000000000000000000000a1''"

definition inspect_faulty_s1 :: "string call" where
  "inspect_faulty_s1 =
     Inspect \<lparr>payload_section_id = ''000000000000000000000001'',
              payload_status = ''faulty'', payload_detail = Some ''sensor''\<rparr> 5
       ''0000000000000000000000b2'' ''0000000000000000000000a2''"

definition mark_faulty_s1 :: "string call" where
  "mark_faulty_s1 = Mark ''000000000000000000000001'' \<lparr>mark_status = ''faulty''\<rparr> 6 7 8
        ''0000000000000000000000b3'' ''0000000000000000000000a3''"

text \<open>Two patches: one that sets the status, one that sets nothing.\<close>

definition patch_faulty :: SectionUpdate where
  "patch_faulty =
     \<lparr>upd_name = None, upd_status = Some ''faulty'', upd_color_safe = None,
      upd_color_faulty = None\<rparr>"

definition patch_nothing :: SectionUpdate where
  "patch_nothing =
     \<lparr>upd_name = None, upd_status = None, upd_color_safe = None, upd_color_faulty = None\<rparr>"

section \<open>Properties\<close>

subsection \<open>The document store\<close>

lemma find_one_update_one:
  "find_one (fst (update_one coll k f)) k' =
     (if k' = k then map_option f (find_one coll k) else find_one coll k')"
  by (induction coll) (auto split: prod.splits)

lemma matched_count_update_one:
  "snd (update_one coll k f) = (if find_one coll k = None then 0 else 1)"
  by (induction coll) (auto split: prod.splits)

lemma update_one_absent:
  "find_one coll k = None \<Longrightarrow> fst (update_one coll k f) = coll"
  by (induction coll) (auto split: prod.splits)

lemma persistent_faults_set_fields_patch:
  "persistent_faults (set_fields (model_dump payload @ [SetUpdatedAt now]) s) = persistent_faults s"
  by (simp add: model_dump_def split: option.splits)

lemma mark_section_section:
  "find_one (tracksection db) k = Some s \<Longrightarrow>
   \<exists>s'. find_one (tracksection (fst (mark_section L db section_id payload now now_check now_insp insp_id alert_id))) k = Some s' \<and>
     persistent_faults s' = persistent_faults s +
       (if is_valid L section_id \<and> ObjectId L section_id = k \<and> status s = ''faulty'' \<and> mark_status payload = ''faulty'' then 1 else 0)"
  by (auto simp: mark_section_def oid_def Let_def find_one_update_one split: option.splits sum.splits)

lemma inspect_section:
  "find_one (tracksection db) k = Some s \<Longrightarrow>
   \<exists>s'. find_one (tracksection (fst (inspect L db payload now insp_id alert_id))) k = Some s' \<and>
     persistent_faults s' = persistent_faults s +
       (if is_valid L (payload_section_id payload) \<and> ObjectId L (payload_section_id payload) = k \<and> status s = ''faulty'' \<and> payload_status payload = ''faulty'' then 1 else 0)"
  by (auto simp: inspect_def oid_def Let_def find_one_update_one split: option.splits sum.splits)

lemma update_section_section:
  "find_one (tracksection db) k = Some s \<Longrightarrow>
   \<exists>s'. find_one (tracksection (fst (update_section L db section_id payload now))) k = Some s' \<and>
     persistent_faults s' = persistent_faults s"
  by (auto simp: update_section_def oid_def Let_def split_beta find_one_update_one
      persistent_faults_set_fields_patch split: option.splits sum.splits)

lemma ack_alert_tracksection:
  "tracksection (fst (ack_alert L db alert_id)) = tracksection db"
  by (auto simp: ack_alert_def oid_def Let_def split_beta split: sum.splits)

subsection \<open>The fault counter\<close>

lemma exec_step:
  "find_one (tracksection db) k = Some s \<Longrightarrow>
   \<exists>s'. find_one (tracksection (fst (exec L db c))) k = Some s' \<and>
     persistent_faults s' = persistent_faults s + (if repeat_fault L k s c then 1 else 0)"
proof (cases c)
  case (Mark section_id payload now now_check now_insp insp_id alert_id)
  assume "find_one (tracksection db) k = Some s"
  from mark_section_section[OF this, of L section_id payload now now_check now_insp insp_id alert_id]
  show ?thesis using Mark by (simp add: repeat_fault_def)
next
  case (Inspect payload now insp_id alert_id)
  assume "find_one (tracksection db) k = Some s"
  from inspect_section[OF this, of L payload now insp_id alert_id]
  show ?thesis using Inspect by (simp add: repeat_fault_def)
next
  case (Patch section_id payload now)
  assume "find_one (tracksection db) k = Some s"
  from update_section_section[OF this, of L section_id payload now]
  show ?thesis using Patch by (simp add: repeat_fault_def)
next
  case (Ack alert_id)
  assume "find_one (tracksection db) k = Some s"
  then show ?thesis using Ack by (simp add: repeat_fault_def ack_alert_tracksection)
qed

lemma run_monotone:
  "find_one (tracksection db) k = Some s \<Longrightarrow>
   \<exists>s'. find_one (tracksection (run L db calls)) k = Some s' \<and>
     persistent_faults s \<le> persistent_faults s'"
proof (induction calls arbitrary: db s)
  case Nil
  then show ?case by simp
next
  case (Cons c cs)
  from exec_step[OF Cons.prems, of L c] obtain s1 where
    s1: "find_one (tracksection (fst (exec L db c))) k = Some s1"
    and le: "persistent_faults s \<le> persistent_faults s1"
    by (auto split: if_splits)
  from Cons.IH[OF s1] obtain s' where
    "find_one (tracksection (run L (fst (exec L db c)) cs)) k = Some s'"
    "persistent_faults s1 \<le> persistent_faults s'" by blast
  with le show ?case by auto
qed

text \<open>
  Claim C1. For every section and every sequence of requests (marks and inspections,
  and patches and acknowledgements as well), \<^verbatim>\<open>persistent_faults\<close> of the section never
  decreases: the section is still stored afterwards and its counter is at least what it
  was. On a single request the counter grows by one exactly when the request is a mark
  or an inspection of this section observing \<^verbatim>\<open>faulty\<close> while the persisted status is
  \<^verbatim>\<open>faulty\<close> already, and is unchanged otherwise; no request resets it.
\<close>

theorem persistent_faults_monotone:
  assumes "find_one (tracksection db) k = Some s"
  shows "(\<exists>s'. find_one (tracksection (run L db calls)) k = Some s' \<and>
            persistent_faults s \<le> persistent_faults s') \<and>
         (\<exists>s'. find_one (tracksection (fst (exec L db c))) k = Some s' \<and>
            persistent_faults s' =
              persistent_faults s + (if repeat_fault L k s c then 1 else 0))"
  using run_monotone[OF assms] exec_step[OF assms] by blast

theorem persistent_faults_monotone_witness:
  "find_one (tracksection sample_db) ''000000000000000000000003'' =
     Some (sample_section ''S3'' ''faulty'' 3) \<and>
   (\<exists>s'. find_one (tracksection (run sample_externals sample_db sample_calls))
            ''000000000000000000000003'' = Some s' \<and> 3 \<le> persistent_faults s') \<and>
   (\<exists>s'. find_one (tracksection (fst (exec sample_externals sample_db (hd sample_calls))))
            ''000000000000000000000003'' = Some s' \<and> persistent_faults s' = 4)"
proof -
  have h: "find_one (tracksection sample_db) ''000000000000000000000003'' =
     Some (sample_section ''S3'' ''faulty'' 3)"
    by (simp add: sample_db_def)
  have r: "repeat_fault sample_externals ''000000000000000000000003''
      (sample_section ''S3'' ''faulty'' 3) (hd sample_calls)"
    by (simp add: repeat_fault_def sample_calls_def sample_externals_def sample_section_def)
  show ?thesis
    using h r persistent_faults_monotone[OF h, of sample_externals sample_calls "hd sample_calls"]
    by (simp add: sample_section_def)
qed

subsection \<open>Recording an observation\<close>

lemma mark_section_found:
  fixes L :: "'oid externals" and payload :: MarkPayload
    and now now_check now_insp :: datetime and insp_id alert_id :: 'oid
  assumes "is_valid L section_id"
    and "find_one (tracksection db) (ObjectId L section_id) = Some s"
  defines "R \<equiv> mark_section L db section_id payload now now_check now_insp insp_id alert_id"
    and "s' \<equiv> s\<lparr>status := mark_status payload,
          last_check := Some (isoformat L now_check),
          updated_at := now,
          persistent_faults :=
            (if status s = ''faulty'' \<and> mark_status payload = ''faulty''
             then persistent_faults s + 1 else persistent_faults s)\<rparr>"
  shows "find_one (tracksection (fst R)) k =
           (if k = ObjectId L section_id then Some s' else find_one (tracksection db) k)"
    and "inspection (fst R) = inspection db @
        [(insp_id, \<lparr>insp_section_id = section_id, insp_status = mark_status payload,
           detail = Some ''manual-mark'', inspected_at = Some (isoformat L now_insp),
           insp_created_at = now\<rparr>)]"
    and "alert (fst R) = alert db @
        (if mark_status payload = ''faulty''
         then [(alert_id, \<lparr>alert_section_id = section_id,
                 message = ''Fault detected at section '' @ name s @ ''.'',
                 severity = ''high'', acknowledged = False, alert_created_at = now\<rparr>)]
         else [])"
    and "snd R = Inr (SectionDoc (str_oid L (ObjectId L section_id)) s')"
  using assms(1,2) unfolding R_def s'_def
  by (simp_all add: mark_section_def oid_def Let_def insert_one_def find_one_update_one)

lemma inspect_found:
  fixes L :: "'oid externals" and payload :: InspectPayload
    and now :: datetime and insp_id alert_id :: 'oid
  assumes "is_valid L (payload_section_id payload)"
    and "find_one (tracksection db) (ObjectId L (payload_section_id payload)) = Some s"
  defines "R \<equiv> inspect L db payload now insp_id alert_id"
    and "s' \<equiv> s\<lparr>status := payload_status payload,
          last_check := Some (isoformat L now),
          updated_at := now,
          persistent_faults :=
            (if status s = ''faulty'' \<and> payload_status payload = ''faulty''
             then persistent_faults s + 1 else persistent_faults s)\<rparr>"
  shows "find_one (tracksection (fst R)) k =
           (if k = ObjectId L (payload_section_id payload) then Some s'
            else find_one (tracksection db) k)"
    and "inspection (fst R) = inspection db @
        [(insp_id, \<lparr>insp_section_id = payload_section_id payload,
           insp_status = payload_status payload,
           detail = payload_detail payload, inspected_at = Some (isoformat L now),
           insp_created_at = now\<rparr>)]"
    and "alert (fst R) = alert db @
        (if payload_status payload = ''faulty''
         then [(alert_id, \<lparr>alert_section_id = payload_section_id payload,
                 message = ''Fault detected at section '' @ name s @ '' (auto)'',
                 severity = ''high'', acknowledged = False, alert_created_at = now\<rparr>)]
         else [])"
    and "snd R = Inr (Created True)"
  using assms(1,2) unfolding R_def s'_def
  by (simp_all add: inspect_def oid_def Let_def insert_one_def find_one_update_one)

lemma mark_section_missing:
  "is_valid L section_id \<Longrightarrow> find_one (tracksection db) (ObjectId L section_id) = None \<Longrightarrow>
   mark_section L db section_id payload now now_check now_insp insp_id alert_id =
     (db, Inl (HTTPException 404 ''Section not found''))"
  by (simp add: mark_section_def oid_def)

lemma inspect_missing:
  "is_valid L (payload_section_id payload) \<Longrightarrow>
   find_one (tracksection db) (ObjectId L (payload_section_id payload)) = None \<Longrightarrow>
   inspect L db payload now insp_id alert_id =
     (db, Inl (HTTPException 404 ''Section not found''))"
  by (simp add: inspect_def oid_def)

lemma observe_step:
  assumes v: "is_valid L section_id"
    and f: "find_one (tracksection db) (ObjectId L section_id) = Some s"
    and ob: "observation c = Some (section_id, observed)"
  shows "\<exists>s'. find_one (tracksection (fst (exec L db c))) (ObjectId L section_id) = Some s' \<and>
           status s' = observed \<and>
           persistent_faults s' = persistent_faults s +
             (if status s = ''faulty'' \<and> observed = ''faulty'' then 1 else 0) \<and>
           length (inspection (fst (exec L db c))) = Suc (length (inspection db))"
proof (cases c)
  case (Mark sid payload now now_check now_insp insp_id alert_id)
  with ob have eq: "sid = section_id" "mark_status payload = observed" by simp_all
  show ?thesis
    using mark_section_found(1,2)[OF v f, of payload now now_check now_insp insp_id alert_id]
    by (simp add: Mark eq)
next
  case (Inspect payload now insp_id alert_id)
  with ob have eq: "payload_section_id payload = section_id" "payload_status payload = observed"
    by simp_all
  show ?thesis
    using inspect_found(1,2)[of L payload db s now insp_id alert_id] v f
    by (simp add: Inspect eq)
next
  case (Patch sid payload now)
  with ob show ?thesis by simp
next
  case (Ack alert_id)
  with ob show ?thesis by simp
qed

text \<open>
  Claim C2, as amended. Two requests in a row that each observe \<^verbatim>\<open>faulty\<close> on an
  existing section (each a mark or an inspection) create two inspection records, and
  raise \<^verbatim>\<open>persistent_faults\<close> by one when the persisted status before the first request
  was not \<^verbatim>\<open>faulty\<close>, by two when it was: then the first request is a repeat fault too.
\<close>

theorem two_faults_increment:
  assumes v: "is_valid L section_id"
    and f: "find_one (tracksection db) (ObjectId L section_id) = Some s"
    and c1: "observation c1 = Some (section_id, ''faulty'')"
    and c2: "observation c2 = Some (section_id, ''faulty'')"
  shows "\<exists>s'. find_one (tracksection (run L db [c1, c2])) (ObjectId L section_id) = Some s' \<and>
           persistent_faults s' =
             persistent_faults s + (if status s = ''faulty'' then 2 else 1) \<and>
           length (inspection (run L db [c1, c2])) = length (inspection db) + 2"
proof -
  from observe_step[OF v f c1] obtain s1 where
    s1: "find_one (tracksection (fst (exec L db c1))) (ObjectId L section_id) = Some s1"
    and st1: "status s1 = ''faulty''"
    and pf1: "persistent_faults s1 =
      persistent_faults s + (if status s = ''faulty'' then 1 else 0)"
    and n1: "length (inspection (fst (exec L db c1))) = Suc (length (inspection db))"
    by auto
  from observe_step[OF v s1 c2] obtain s2 where
    s2: "find_one (tracksection (fst (exec L (fst (exec L db c1)) c2))) (ObjectId L section_id)
      = Some s2"
    and pf2: "persistent_faults s2 = persistent_faults s1 + 1"
    and n2: "length (inspection (fst (exec L (fst (exec L db c1)) c2))) =
      Suc (length (inspection (fst (exec L db c1))))"
    using st1 by auto
  show ?thesis using s2 pf1 pf2 n1 n2 by simp
qed

theorem two_faults_increment_witness:
  "is_valid sample_externals ''000000000000000000000001'' \<and>
   find_one (tracksection sample_db) (ObjectId sample_externals ''000000000000000000000001'') =
     Some (sample_section ''S1'' ''safe'' 0) \<and>
   observation inspect_faulty_s1 = Some (''000000000000000000000001'', ''faulty'') \<and>
   observation mark_faulty_s1 = Some (''000000000000000000000001'', ''faulty'') \<and>
   (\<exists>s'. find_one (tracksection (run sample_externals sample_db [inspect_faulty_s1, mark_faulty_s1]))
            (ObjectId sample_externals ''000000000000000000000001'') = Some s' \<and>
          persistent_faults s' = 1 \<and>
          length (inspection (run sample_externals sample_db [inspect_faulty_s1, mark_faulty_s1])) = 2)"
proof -
  have v: "is_valid sample_externals ''000000000000000000000001''"
    by (simp add: sample_externals_def)
  have f: "find_one (tracksection sample_db)
      (ObjectId sample_externals ''000000000000000000000001'') =
     Some (sample_section ''S1'' ''safe'' 0)"
    by (simp add: sample_db_def sample_externals_def)
  have c1: "observation inspect_faulty_s1 = Some (''000000000000000000000001'', ''faulty'')"
    by (simp add: inspect_faulty_s1_def)
  have c2: "observation mark_faulty_s1 = Some (''000000000000000000000001'', ''faulty'')"
    by (simp add: mark_faulty_s1_def)
  have n: "length (inspection sample_db) = 0" by (simp add: sample_db_def)
  show ?thesis
    using v f c1 c2 n two_faults_increment[OF v f c1 c2]
    by (auto simp: sample_section_def)
qed

text \<open>
  The claim as stated, an increment of exactly one for every existing section, fails on
  the third sample section, faulty with a count of 3: two marks leave the count at 5.
\<close>

theorem two_faults_counterexample:
  "map_option persistent_faults
     (find_one (tracksection sample_db) ''000000000000000000000003'') = Some 3 \<and>
   map_option persistent_faults
     (find_one (tracksection (run sample_externals sample_db [mark_faulty_s3, mark_faulty_s3]))
        ''000000000000000000000003'') = Some 5 \<and>
   map_option persistent_faults
     (find_one (tracksection (run sample_externals sample_db [mark_faulty_s3, mark_faulty_s3]))
        ''000000000000000000000003'') \<noteq> Some (3 + 1)"
  by (simp add: sample_db_def sample_externals_def sample_section_def mark_faulty_s3_def
      mark_section_def oid_def insert_one_def)

text \<open>
  Claim C3. A mark or an inspection of an existing section appends exactly one alert to
  the alert collection when the observed status is \<^verbatim>\<open>faulty\<close>, and none otherwise. The
  alert carries the section identifier of the request, severity \<^verbatim>\<open>high\<close> and
  \<^verbatim>\<open>acknowledged = False\<close>; the alerts already stored are untouched.
\<close>

theorem alert_iff_faulty:
  assumes v: "is_valid L section_id"
    and f: "find_one (tracksection db) (ObjectId L section_id) = Some s"
  shows "alert (fst (mark_section L db section_id payload now now_check now_insp insp_id alert_id)) =
           alert db @
           (if mark_status payload = ''faulty''
            then [(alert_id, \<lparr>alert_section_id = section_id,
                    message = ''Fault detected at section '' @ name s @ ''.'',
                    severity = ''high'', acknowledged = False, alert_created_at = now\<rparr>)]
            else []) \<and>
         alert (fst (inspect L db
             \<lparr>payload_section_id = section_id, payload_status = observed, payload_detail = dt\<rparr>
             now insp_id alert_id)) =
           alert db @
           (if observed = ''faulty''
            then [(alert_id, \<lparr>alert_section_id = section_id,
                    message = ''Fault detected at section '' @ name s @ '' (auto)'',
                    severity = ''high'', acknowledged = False, alert_created_at = now\<rparr>)]
            else [])"
  using mark_section_found(3)[OF v f, of payload now now_check now_insp insp_id alert_id]
    inspect_found(3)[of L "\<lparr>payload_section_id = section_id, payload_status = observed,
      payload_detail = dt\<rparr>" db s now insp_id alert_id] v f
  by simp

theorem alert_iff_faulty_witness:
  "is_valid sample_externals ''000000000000000000000001'' \<and>
   find_one (tracksection sample_db) (ObjectId sample_externals ''000000000000000000000001'') =
     Some (sample_section ''S1'' ''safe'' 0) \<and>
   length (alert sample_db) = 1 \<and>
   length (alert (fst (mark_section sample_externals sample_db ''000000000000000000000001''
     \<lparr>mark_status = ''faulty''\<rparr> 6 7 8
     ''0000000000000000000000b3'' ''0000000000000000000000a3''))) = 2 \<and>
   length (alert (fst (inspect sample_externals sample_db
     \<lparr>payload_section_id = ''000000000000000000000001'', payload_status = ''safe'',
      payload_detail = None\<rparr> 6
     ''0000000000000000000000b3'' ''0000000000000000000000a3''))) = 1"
proof -
  have v: "is_valid sample_externals ''000000000000000000000001''"
    by (simp add: sample_externals_def)
  have f: "find_one (tracksection sample_db)
      (ObjectId sample_externals ''000000000000000000000001'') =
     Some (sample_section ''S1'' ''safe'' 0)"
    by (simp add: sample_db_def sample_externals_def)
  have n: "length (alert sample_db) = 1" by (simp add: sample_db_def)
  show ?thesis
    using v f n alert_iff_faulty[OF v f, of "\<lparr>mark_status = ''faulty''\<rparr>" 6 7 8
      "''0000000000000000000000b3''" "''0000000000000000000000a3''" "''safe''" None]
    by simp
qed

text \<open>
  Claim C4. A mark or an inspection whose well-formed identifier references no stored
  section raises the 404 error \<^verbatim>\<open>Section not found\<close> and leaves the database as it
  was: no inspection, no alert, no section written.
\<close>

theorem missing_section_not_found:
  assumes v: "is_valid L section_id"
    and f: "find_one (tracksection db) (ObjectId L section_id) = None"
  shows "mark_section L db section_id payload now now_check now_insp insp_id alert_id =
           (db, Inl (HTTPException 404 ''Section not found'')) \<and>
         inspect L db
             \<lparr>payload_section_id = section_id, payload_status = observed, payload_detail = dt\<rparr>
             now' insp_id' alert_id' =
           (db, Inl (HTTPException 404 ''Section not found''))"
  using mark_section_missing[OF v f] inspect_missing[of L "\<lparr>payload_section_id = section_id,
    payload_status = observed, payload_detail = dt\<rparr>" db] v f
  by simp

theorem missing_section_not_found_witness:
  "is_valid sample_externals ''000000000000000000000009'' \<and>
   find_one (tracksection sample_db) (ObjectId sample_externals ''000000000000000000000009'') = None \<and>
   mark_section sample_externals sample_db ''000000000000000000000009''
     \<lparr>mark_status = ''faulty''\<rparr> 6 7 8
     ''0000000000000000000000b3'' ''0000000000000000000000a3'' =
     (sample_db, Inl (HTTPException 404 ''Section not found'')) \<and>
   inspect sample_externals sample_db
     \<lparr>payload_section_id = ''000000000000000000000009'', payload_status = ''faulty'',
      payload_detail = None\<rparr> 6
     ''0000000000000000000000b3'' ''0000000000000000000000a3'' =
     (sample_db, Inl (HTTPException 404 ''Section not found''))"
proof -
  have v: "is_valid sample_externals ''000000000000000000000009''"
    by (simp add: sample_externals_def)
  have f: "find_one (tracksection sample_db)
      (ObjectId sample_externals ''000000000000000000000009'') = None"
    by (simp add: sample_db_def sample_externals_def)
  show ?thesis
    using v f missing_section_not_found[OF v f, of "\<lparr>mark_status = ''faulty''\<rparr>" 6 7 8
      "''0000000000000000000000b3''" "''0000000000000000000000a3''" "''faulty''" None 6
      "''0000000000000000000000b3''" "''0000000000000000000000a3''"]
    by simp
qed

text \<open>
  Claim C6, as amended. A mark of an existing section returns the section document as
  reloaded from the store after the update, with the observed status, the new
  \<^verbatim>\<open>last_check\<close> and the updated fault counter. An inspection of an existing section
  returns \<^verbatim>\<open>{"created": True}\<close> and no section document.
\<close>

theorem mark_section_returns_reloaded:
  assumes v: "is_valid L section_id"
    and f: "find_one (tracksection db) (ObjectId L section_id) = Some s"
  shows "(\<exists>s'. snd (mark_section L db section_id payload now now_check now_insp insp_id alert_id) =
             Inr (SectionDoc (str_oid L (ObjectId L section_id)) s') \<and>
           find_one (tracksection
               (fst (mark_section L db section_id payload now now_check now_insp insp_id alert_id)))
             (ObjectId L section_id) = Some s' \<and>
           status s' = mark_status payload \<and>
           last_check s' = Some (isoformat L now_check) \<and>
           persistent_faults s' = persistent_faults s +
             (if status s = ''faulty'' \<and> mark_status payload = ''faulty'' then 1 else 0)) \<and>
         snd (inspect L db
             \<lparr>payload_section_id = section_id, payload_status = observed, payload_detail = dt\<rparr>
             now' insp_id' alert_id') = Inr (Created True)"
  using mark_section_found(1,4)[OF v f, of payload now now_check now_insp insp_id alert_id]
    inspect_found(4)[of L "\<lparr>payload_section_id = section_id, payload_status = observed,
      payload_detail = dt\<rparr>" db s now' insp_id' alert_id'] v f
  by simp

theorem mark_section_returns_reloaded_witness:
  "is_valid sample_externals ''000000000000000000000003'' \<and>
   find_one (tracksection sample_db) (ObjectId sample_externals ''000000000000000000000003'') =
     Some (sample_section ''S3'' ''faulty'' 3) \<and>
   (\<exists>s'. snd (mark_section sample_externals sample_db ''000000000000000000000003''
              \<lparr>mark_status = ''faulty''\<rparr> 2 3 4
              ''0000000000000000000000b1'' ''0000000000000000000000a1'') =
            Inr (SectionDoc ''000000000000000000000003'' s') \<and>
          status s' = ''faulty'' \<and> last_check s' = Some ''+++'' \<and> persistent_faults s' = 4) \<and>
   snd (inspect sample_externals sample_db
     \<lparr>payload_section_id = ''000000000000000000000003'', payload_status = ''safe'',
      payload_detail = None\<rparr> 5
     ''0000000000000000000000b2'' ''0000000000000000000000a2'') = Inr (Created True)"
proof -
  have v: "is_valid sample_externals ''000000000000000000000003''"
    by (simp add: sample_externals_def)
  have f: "find_one (tracksection sample_db)
      (ObjectId sample_externals ''000000000000000000000003'') =
     Some (sample_section ''S3'' ''faulty'' 3)"
    by (simp add: sample_db_def sample_externals_def)
  have e: "str_oid sample_externals (ObjectId sample_externals ''000000000000000000000003'') =
      ''000000000000000000000003''"
      "isoformat sample_externals 3 = ''+++''"
    by (simp_all add: sample_externals_def numeral_3_eq_3)
  show ?thesis
    using v f e mark_section_returns_reloaded[OF v f, of "\<lparr>mark_status = ''faulty''\<rparr>" 2 3 4
      "''0000000000000000000000b1''" "''0000000000000000000000a1''" "''safe''" None 5
      "''0000000000000000000000b2''" "''0000000000000000000000a2''"]
    by (auto simp: sample_section_def)
qed

text \<open>
  The claim as stated, that every recorded observation returns the reloaded section,
  fails for an inspection: on the third sample section it updates the stored document
  and answers \<^verbatim>\<open>{"created": True}\<close>.
\<close>

theorem inspect_returns_created_counterexample:
  "snd (inspect sample_externals sample_db
     \<lparr>payload_section_id = ''000000000000000000000003'', payload_status = ''faulty'',
      payload_detail = None\<rparr> 5
     ''0000000000000000000000b2'' ''0000000000000000000000a2'') = Inr (Created True) \<and>
   find_one (tracksection (fst (inspect sample_externals sample_db
     \<lparr>payload_section_id = ''000000000000000000000003'', payload_status = ''faulty'',
      payload_detail = None\<rparr> 5
     ''0000000000000000000000b2'' ''0000000000000000000000a2''))) ''000000000000000000000003'' =
     Some ((sample_section ''S3'' ''faulty'' 4)
             \<lparr>last_check := Some ''+++++'', updated_at := 5\<rparr>)"
  by (simp add: inspect_def oid_def sample_db_def sample_externals_def sample_section_def
      insert_one_def numeral_eq_Suc)

subsection \<open>Patching a section\<close>

lemma set_fields_patch_fields:
  "updated_at (set_fields (model_dump payload @ [SetUpdatedAt now]) s) = now"
  "status (set_fields (model_dump payload @ [SetUpdatedAt now]) s) =
     (case upd_status payload of None \<Rightarrow> status s | Some v \<Rightarrow> v)"
  by (simp_all add: model_dump_def split: option.splits)

lemma model_dump_empty_status:
  "model_dump payload = [] \<Longrightarrow> upd_status payload = None"
  by (simp add: model_dump_def split: option.splits)

lemma update_section_found:
  assumes ne: "model_dump payload \<noteq> []"
    and v: "is_valid L section_id"
    and f: "find_one (tracksection db) (ObjectId L section_id) = Some s"
  shows "find_one (tracksection (fst (update_section L db section_id payload now))) k =
           (if k = ObjectId L section_id
            then Some (set_fields (model_dump payload @ [SetUpdatedAt now]) s)
            else find_one (tracksection db) k)"
    and "snd (update_section L db section_id payload now) =
           Inr (SectionDoc (str_oid L (ObjectId L section_id))
             (set_fields (model_dump payload @ [SetUpdatedAt now]) s))"
  using assms
  by (simp_all add: update_section_def oid_def Let_def split_beta find_one_update_one
      matched_count_update_one)

lemma update_section_missing:
  assumes ne: "model_dump payload \<noteq> []"
    and v: "is_valid L section_id"
    and f: "find_one (tracksection db) (ObjectId L section_id) = None"
  shows "update_section L db section_id payload now =
           (db, Inl (HTTPException 404 ''Section not found''))"
  using assms
  by (simp add: update_section_def oid_def Let_def split_beta matched_count_update_one
      update_one_absent)

text \<open>
  Claim C5, as amended. A patch that sets at least one field, sent with a well-formed
  identifier, stamps \<^verbatim>\<open>updated_at\<close> of the section with the time of the request when
  the section exists, and raises the 404 error \<^verbatim>\<open>Section not found\<close>, the database
  unchanged, when it does not.
\<close>

theorem update_section_stamps:
  assumes ne: "model_dump payload \<noteq> []"
    and v: "is_valid L section_id"
  shows "case find_one (tracksection db) (ObjectId L section_id) of
           None \<Rightarrow>
             update_section L db section_id payload now =
               (db, Inl (HTTPException 404 ''Section not found''))
         | Some s \<Rightarrow>
             (\<exists>s'. find_one (tracksection (fst (update_section L db section_id payload now)))
                     (ObjectId L section_id) = Some s' \<and>
                   updated_at s' = now)"
proof (cases "find_one (tracksection db) (ObjectId L section_id)")
  case None
  then show ?thesis using update_section_missing[OF ne v] by simp
next
  case (Some s)
  then show ?thesis
    using update_section_found(1)[OF ne v Some, of now "ObjectId L section_id"]
    by (simp add: set_fields_patch_fields)
qed

theorem update_section_stamps_witness:
  "model_dump patch_faulty \<noteq> [] \<and>
   is_valid sample_externals ''000000000000000000000001'' \<and>
   is_valid sample_externals ''000000000000000000000009'' \<and>
   (\<exists>s'. find_one (tracksection (fst (update_section sample_externals sample_db
              ''000000000000000000000001'' patch_faulty 9)))
            ''000000000000000000000001'' = Some s' \<and> updated_at s' = 9) \<and>
   update_section sample_externals sample_db ''000000000000000000000009'' patch_faulty 9 =
     (sample_db, Inl (HTTPException 404 ''Section not found''))"
proof -
  have ne: "model_dump patch_faulty \<noteq> []"
    by (simp add: model_dump_def patch_faulty_def)
  have v1: "is_valid sample_externals ''000000000000000000000001''"
    and v9: "is_valid sample_externals ''000000000000000000000009''"
    by (simp_all add: sample_externals_def)
  have f1: "find_one (tracksection sample_db)
      (ObjectId sample_externals ''000000000000000000000001'') =
     Some (sample_section ''S1'' ''safe'' 0)"
    and f9: "find_one (tracksection sample_db)
      (ObjectId sample_externals ''000000000000000000000009'') = None"
    and o: "ObjectId sample_externals ''000000000000000000000001'' =
      ''000000000000000000000001''"
    by (simp_all add: sample_db_def sample_externals_def)
  show ?thesis
    using ne v1 v9 f1 f9 o
      update_section_stamps[OF ne v1, of sample_db 9]
      update_section_stamps[OF ne v9, of sample_db 9]
    by simp
qed

text \<open>
  The claim as stated, for every patch, fails for a patch that sets no field: on the
  first sample section it leaves \<^verbatim>\<open>updated_at\<close> at 1 although the request is made at
  time 9, and for an identifier that references no section it answers
  \<^verbatim>\<open>{"updated": False}\<close> and raises nothing.
\<close>

theorem update_section_stamps_counterexample:
  "update_section sample_externals sample_db ''000000000000000000000001'' patch_nothing 9 =
     (sample_db, Inr (Updated False)) \<and>
   map_option updated_at
     (find_one (tracksection (fst (update_section sample_externals sample_db
        ''000000000000000000000001'' patch_nothing 9))) ''000000000000000000000001'') = Some 1 \<and>
   find_one (tracksection sample_db) ''000000000000000000000009'' = None \<and>
   update_section sample_externals sample_db ''000000000000000000000009'' patch_nothing 9 =
     (sample_db, Inr (Updated False))"
  by (simp add: update_section_def model_dump_def patch_nothing_def sample_db_def
      sample_section_def)

text \<open>
  Claim C7. A patch leaves \<^verbatim>\<open>persistent_faults\<close> of every stored section as it was,
  whatever it sets: a patch of the section's status changes the status (to \<^verbatim>\<open>faulty\<close>
  as well) and the counter stays.
\<close>

theorem update_section_keeps_persistent_faults:
  assumes f: "find_one (tracksection db) k = Some s"
  shows "\<exists>s'. find_one (tracksection (fst (update_section L db section_id payload now))) k =
             Some s' \<and>
           persistent_faults s' = persistent_faults s \<and>
           status s' =
             (if is_valid L section_id \<and> ObjectId L section_id = k
              then (case upd_status payload of None \<Rightarrow> status s | Some v \<Rightarrow> v)
              else status s)"
proof (cases "model_dump payload = []")
  case True
  then show ?thesis
    using f model_dump_empty_status[OF True] by (simp add: update_section_def)
next
  case ne: False
  show ?thesis
  proof (cases "is_valid L section_id")
    case False
    then show ?thesis using f ne by (simp add: update_section_def oid_def)
  next
    case v: True
    show ?thesis
    proof (cases "ObjectId L section_id = k")
      case True
      with f have f': "find_one (tracksection db) (ObjectId L section_id) = Some s" by simp
      show ?thesis
        using update_section_found(1)[OF ne v f', of now k] True v
        by (simp add: set_fields_patch_fields persistent_faults_set_fields_patch)
    next
      case False
      show ?thesis
      proof (cases "find_one (tracksection db) (ObjectId L section_id)")
        case None
        then show ?thesis using update_section_missing[OF ne v None] f False by simp
      next
        case (Some t)
        then show ?thesis using update_section_found(1)[OF ne v Some, of now k] f False by auto
      qed
    qed
  qed
qed

theorem update_section_keeps_persistent_faults_witness:
  "find_one (tracksection sample_db) ''000000000000000000000001'' =
     Some (sample_section ''S1'' ''safe'' 0) \<and>
   (\<exists>s'. find_one (tracksection (fst (update_section sample_externals sample_db
              ''000000000000000000000001'' patch_faulty 9)))
            ''000000000000000000000001'' = Some s' \<and>
          persistent_faults s' = 0 \<and> status s' = ''faulty'')"
proof -
  have f: "find_one (tracksection sample_db) ''000000000000000000000001'' =
     Some (sample_section ''S1'' ''safe'' 0)"
    by (simp add: sample_db_def)
  have e: "is_valid sample_externals ''000000000000000000000001''"
    "ObjectId sample_externals ''000000000000000000000001'' = ''000000000000000000000001''"
    "upd_status patch_faulty = Some ''faulty''"
    by (simp_all add: sample_externals_def patch_faulty_def)
  show ?thesis
    using f e update_section_keeps_persistent_faults[OF f, of sample_externals
      "''000000000000000000000001''" patch_faulty 9]
    by (auto simp: sample_section_def)
qed

text \<open>
  Claim C10. A patch whose payload sets no field answers \<^verbatim>\<open>{"updated": False}\<close> and
  leaves the database as it was, for every identifier, well-formed or not, stored or
  not: the identifier is never looked at.
\<close>

theorem update_section_empty_payload:
  "update_section L db section_id
     \<lparr>upd_name = None, upd_status = None, upd_color_safe = None, upd_color_faulty = None\<rparr> now =
     (db, Inr (Updated False))"
  by (simp add: update_section_def model_dump_def)


subsection \<open>The summary\<close>

lemma count_documents_filter:
  "count_documents coll q = length (filter (\<lambda>(k, s). matches q s) coll)"
  by (induction coll) auto

text \<open>
  Claim C8. \<^verbatim>\<open>summary\<close> returns the number of sections as \<^verbatim>\<open>total\<close>, the numbers of
  sections with status \<^verbatim>\<open>safe\<close> and \<^verbatim>\<open>faulty\<close>, and as \<^verbatim>\<open>critical\<close> the number of
  sections with at least three persistent faults, and leaves the database as it was. On
  the sample store (two safe sections, one faulty with three persistent faults) the
  counts are 3, 2, 1 and 1.
\<close>

theorem summary_counts_sections:
  "summary db =
     (db, \<lparr>total = length (tracksection db),
           safe = length (filter (\<lambda>(k, s). status s = ''safe'') (tracksection db)),
           faulty = length (filter (\<lambda>(k, s). status s = ''faulty'') (tracksection db)),
           critical = length (filter (\<lambda>(k, s). 3 \<le> persistent_faults s) (tracksection db))\<rparr>) \<and>
   snd (summary sample_db) = \<lparr>total = 3, safe = 2, faulty = 1, critical = 1\<rparr>"
proof
  show "summary db =
     (db, \<lparr>total = length (tracksection db),
           safe = length (filter (\<lambda>(k, s). status s = ''safe'') (tracksection db)),
           faulty = length (filter (\<lambda>(k, s). status s = ''faulty'') (tracksection db)),
           critical = length (filter (\<lambda>(k, s). 3 \<le> persistent_faults s) (tracksection db))\<rparr>)"
    by (simp add: summary_def count_documents_filter)
  show "snd (summary sample_db) = \<lparr>total = 3, safe = 2, faulty = 1, critical = 1\<rparr>"
    by (simp add: summary_def sample_db_def sample_section_def)
qed

subsection \<open>Acknowledging an alert\<close>

lemma update_one_idem:
  "(\<And>d. f (f d) = f d) \<Longrightarrow>
   update_one (fst (update_one coll k f)) k f =
     (fst (update_one coll k f), snd (update_one coll k f))"
  by (induction coll) (auto simp: split_beta)

text \<open>
  Claim C9. For a well-formed identifier: when it references a stored alert, the
  acknowledgement succeeds and the alert is acknowledged afterwards, and a second
  acknowledgement succeeds as well and changes nothing; when it references no alert, the
  request raises the 404 error \<^verbatim>\<open>Alert not found\<close> and the database is unchanged.
\<close>

theorem ack_alert_idempotent:
  assumes v: "is_valid L alert_id"
  shows "case find_one (alert db) (ObjectId L alert_id) of
           None \<Rightarrow>
             ack_alert L db alert_id = (db, Inl (HTTPException 404 ''Alert not found''))
         | Some a \<Rightarrow>
             snd (ack_alert L db alert_id) = Inr (Acknowledged True) \<and>
             find_one (alert (fst (ack_alert L db alert_id))) (ObjectId L alert_id) =
               Some (a\<lparr>acknowledged := True\<rparr>) \<and>
             ack_alert L (fst (ack_alert L db alert_id)) alert_id =
               (fst (ack_alert L db alert_id), Inr (Acknowledged True))"
proof (cases "find_one (alert db) (ObjectId L alert_id)")
  case None
  then show ?thesis
    using v
    by (simp add: ack_alert_def oid_def Let_def split_beta matched_count_update_one
        update_one_absent)
next
  case (Some a)
  have idem: "update_one (fst (update_one (alert db) (ObjectId L alert_id)
        (\<lambda>a. a\<lparr>acknowledged := True\<rparr>))) (ObjectId L alert_id) (\<lambda>a. a\<lparr>acknowledged := True\<rparr>) =
      (fst (update_one (alert db) (ObjectId L alert_id) (\<lambda>a. a\<lparr>acknowledged := True\<rparr>)),
       snd (update_one (alert db) (ObjectId L alert_id) (\<lambda>a. a\<lparr>acknowledged := True\<rparr>)))"
    by (rule update_one_idem) simp
  show ?thesis
    using v Some
    by (simp add: ack_alert_def oid_def Let_def split_beta matched_count_update_one
        find_one_update_one idem)
qed

theorem ack_alert_idempotent_witness:
  "is_valid sample_externals ''00000000000000000000000a'' \<and>
   snd (ack_alert sample_externals sample_db ''00000000000000000000000a'') =
     Inr (Acknowledged True) \<and>
   map_option acknowledged
     (find_one (alert (fst (ack_alert sample_externals sample_db ''00000000000000000000000a'')))
        ''00000000000000000000000a'') = Some True \<and>
   snd (ack_alert sample_externals
          (fst (ack_alert sample_externals sample_db ''00000000000000000000000a''))
          ''00000000000000000000000a'') = Inr (Acknowledged True)"
proof -
  have v: "is_valid sample_externals ''00000000000000000000000a''"
    by (simp add: sample_externals_def)
  have f: "find_one (alert sample_db) (ObjectId sample_externals ''00000000000000000000000a'') =
      Some \<lparr>alert_section_id = ''000000000000000000000003'',
           message = ''Fault detected at section S3.'',
           severity = ''high'', acknowledged = False, alert_created_at = 1\<rparr>"
    and o: "ObjectId sample_externals ''00000000000000000000000a'' = ''00000000000000000000000a''"
    by (simp_all add: sample_db_def sample_externals_def)
  show ?thesis
    using v f o ack_alert_idempotent[OF v, of sample_db]
    by simp
qed

end
